theory Spec2Isabelle
  imports Main
begin

section \<open>The generative-AI service client (services/geminiService)\<close>

text \<open>
  The module wraps four calls of a hosted generative model: \<open>generateText\<close>,
  \<open>generateImage\<close>, \<open>streamText\<close> and \<open>analyzeImage\<close>. Each builds a client with
  \<open>getAIClient\<close>, issues one request and post-processes the answer inside a
  \<^verbatim>\<open>try { ... } catch (error) { ... }\<close>.

  The hosted service and the browser are outside the module, so they are parameters of
  the model: a \<open>service\<close> says, for every credential and request, whether the transport
  rejects or what it answers; the \<open>world\<close> carries the process environment, the console
  and the log of requests that were issued. A promise that rejects (or a generator that
  throws) is \<open>Inl\<close> of the thrown value; one that resolves is \<open>Inr\<close>.
\<close>

subsection \<open>Thrown values and the console\<close>

datatype error =
    Error (message: string)
  | ProgressEvent string

datatype log_entry =
    Warn string
  | LogError string error

subsection \<open>Responses, stream chunks and requests\<close>

text \<open>
  Modelled from the spec: the response types of the client library are not part of the
  sources. Section 6 of the specification gives the shapes \<^verbatim>\<open>{ text }\<close> and
  \<^verbatim>\<open>{ candidates: [{ content: { parts: [{ inlineData: { mimeType, data } }] } }] }\<close>;
  every level that the code reads with \<^verbatim>\<open>?.\<close> or tests for truthiness is optional.
\<close>

record inline_data =
  mimeType :: string
  data :: string

record part =
  inlineData :: "inline_data option"
  part_text :: "string option"

record content =
  parts :: "part list option"

record candidate =
  content :: "content option"

record response =
  response_text :: "string option"
  candidates :: "candidate list option"

record chunk =
  chunk_text :: "string option"

text \<open>
  What the async iterator of a streamed response delivers: chunks in arrival order, then
  either the end of the stream or a failure raised by the next pull.
\<close>

datatype chunk_stream =
    StreamEnd
  | StreamFail error
  | StreamChunk chunk chunk_stream

datatype request_part =
    InlineDataPart string "string option"
  | TextPart string

datatype contents =
    Prompt string
  | Parts "request_part list"

record thinking_config =
  thinkingBudget :: int

record image_config =
  aspectRatio :: string

record config =
  systemInstruction :: "string option"
  thinkingConfig :: "thinking_config option"
  imageConfig :: "image_config option"

record request =
  model :: string
  contents :: contents
  config :: "config option"

subsection \<open>The service, the client and the world\<close>

record service =
  generateContent :: "string \<Rightarrow> request \<Rightarrow> error + response"
  generateContentStream :: "string \<Rightarrow> request \<Rightarrow> error + chunk_stream"

record client =
  apiKey :: string

record world =
  API_KEY :: "string option"
  console :: "log_entry list"
  sent :: "(string \<times> request) list"

text \<open>
  The \<open>File\<close> handed to \<open>analyzeImage\<close>: its \<open>type\<close> field and what
  \<open>FileReader.readAsDataURL\<close> delivers for it, the error event or the result string.
\<close>

record image_file =
  file_type :: string
  readAsDataURL :: "error + string"

subsection \<open>JavaScript operators used by the module\<close>

text \<open>Truthiness of a \<open>string | undefined\<close>: defined and not the empty string.\<close>

definition truthy :: "string option \<Rightarrow> bool" where
  "truthy v = (case v of None \<Rightarrow> False | Some s \<Rightarrow> s \<noteq> [])"

text \<open>\<^verbatim>\<open>v || d\<close> on a \<open>string | undefined\<close>.\<close>

definition js_or :: "string option \<Rightarrow> string \<Rightarrow> string" where
  "js_or v d = (case v of None \<Rightarrow> d | Some s \<Rightarrow> if s \<noteq> [] then s else d)"

text \<open>\<^verbatim>\<open>s.includes(t)\<close>: \<open>t\<close> occurs in \<open>s\<close> as a contiguous run.\<close>

fun str_includes :: "string \<Rightarrow> string \<Rightarrow> bool" where
  "str_includes [] t = (t = [])"
| "str_includes (c # cs) t = (take (length t) (c # cs) = t \<or> str_includes cs t)"

text \<open>\<^verbatim>\<open>s.split(',')\<close>: the pieces between commas; never an empty list.\<close>

fun split_comma :: "string \<Rightarrow> string list" where
  "split_comma [] = [[]]"
| "split_comma (c # cs) =
     (if c = CHR '','' then [] # split_comma cs
      else (case split_comma cs of
              [] \<Rightarrow> [[c]]
            | p # ps \<Rightarrow> (c # p) # ps))"

text \<open>\<^verbatim>\<open>xs[1]\<close>: the second element, \<open>undefined\<close> when there is none.\<close>

definition index1 :: "'a list \<Rightarrow> 'a option" where
  "index1 xs = (case xs of [] \<Rightarrow> None | [_] \<Rightarrow> None | _ # y # _ \<Rightarrow> Some y)"

subsection \<open>getAIClient\<close>

definition getAIClient :: "world \<Rightarrow> client \<times> world" where
  "getAIClient w =
     (let key = API_KEY w;
          w1 = (if \<not> truthy key
                then w\<lparr>console := console w @
                       [Warn ''Gemini API Key is missing. Check process.env.API_KEY'']\<rparr>
                else w)
      in (\<lparr>apiKey = js_or key ''DUMMY_KEY_FOR_DEMO''\<rparr>, w1))"

text \<open>
  \<^verbatim>\<open>await ai.models.generateContent(req)\<close> and
  \<^verbatim>\<open>await ai.models.generateContentStream(req)\<close>: the request goes out once, under the
  client's credential, and the service's answer comes back.
\<close>

definition models_generateContent ::
  "service \<Rightarrow> client \<Rightarrow> request \<Rightarrow> world \<Rightarrow> (error + response) \<times> world" where
  "models_generateContent svc ai req w =
     (generateContent svc (apiKey ai) req, w\<lparr>sent := sent w @ [(apiKey ai, req)]\<rparr>)"

definition models_generateContentStream ::
  "service \<Rightarrow> client \<Rightarrow> request \<Rightarrow> world \<Rightarrow> (error + chunk_stream) \<times> world" where
  "models_generateContentStream svc ai req w =
     (generateContentStream svc (apiKey ai) req, w\<lparr>sent := sent w @ [(apiKey ai, req)]\<rparr>)"

subsection \<open>generateText\<close>

text \<open>The default of the \<open>modelId\<close> parameter of \<open>generateText\<close> and \<open>streamText\<close>.\<close>

definition default_modelId :: "string option \<Rightarrow> string" where
  "default_modelId m = (case m of None \<Rightarrow> ''gemini-3-flash-preview'' | Some i \<Rightarrow> i)"

definition generateText_request :: "string \<Rightarrow> string option \<Rightarrow> string option \<Rightarrow> request" where
  "generateText_request prompt modelId sysInstruction =
     \<lparr>model = default_modelId modelId,
      contents = Prompt prompt,
      config = Some \<lparr>systemInstruction = sysInstruction,
                     thinkingConfig =
                       (if str_includes (default_modelId modelId) ''gemini-3''
                        then Some \<lparr>thinkingBudget = 0\<rparr> else None),
                     imageConfig = None\<rparr>\<rparr>"

text \<open>The body of the \<open>try\<close> block.\<close>

definition generateText_try ::
  "service \<Rightarrow> string \<Rightarrow> string option \<Rightarrow> string option \<Rightarrow> world \<Rightarrow> (error + string) \<times> world" where
  "generateText_try svc prompt modelId sysInstruction w =
     (let (ai, w1) = getAIClient w;
          (r, w2) = models_generateContent svc ai
                      (generateText_request prompt modelId sysInstruction) w1
      in case r of
           Inl e \<Rightarrow> (Inl e, w2)
         | Inr resp \<Rightarrow> (Inr (js_or (response_text resp) ''No response generated.''), w2))"

text \<open>The whole function: the \<open>catch\<close> logs the error and throws it again.\<close>

definition generateText ::
  "service \<Rightarrow> string \<Rightarrow> string option \<Rightarrow> string option \<Rightarrow> world \<Rightarrow> (error + string) \<times> world" where
  "generateText svc prompt modelId sysInstruction w =
     (case generateText_try svc prompt modelId sysInstruction w of
        (Inr t, w') \<Rightarrow> (Inr t, w')
      | (Inl e, w') \<Rightarrow>
          (Inl e, w'\<lparr>console := console w' @ [LogError ''Gemini GenerateText Error:'' e]\<rparr>))"

subsection \<open>generateImage\<close>

definition generateImage_request :: "string \<Rightarrow> request" where
  "generateImage_request prompt =
     \<lparr>model = ''gemini-2.5-flash-image'',
      contents = Parts [TextPart prompt],
      config = Some \<lparr>systemInstruction = None,
                     thinkingConfig = None,
                     imageConfig = Some \<lparr>aspectRatio = ''1:1''\<rparr>\<rparr>\<rparr>"

text \<open>\<^verbatim>\<open>response.candidates?.[0]?.content?.parts || []\<close>\<close>

definition response_parts :: "response \<Rightarrow> part list" where
  "response_parts resp =
     (case candidates resp of
        None \<Rightarrow> []
      | Some [] \<Rightarrow> []
      | Some (c # _) \<Rightarrow>
          (case content c of
             None \<Rightarrow> []
           | Some ct \<Rightarrow> (case parts ct of None \<Rightarrow> [] | Some ps \<Rightarrow> ps)))"

text \<open>The template literal \<^verbatim>\<open>`data:${mimeType};base64,${data}`\<close>.\<close>

definition data_uri :: "string \<Rightarrow> string \<Rightarrow> string" where
  "data_uri m d = ''data:'' @ m @ '';base64,'' @ d"

text \<open>
  The \<open>for\<close> loop over the parts, and the \<open>throw\<close> that follows it when no iteration
  returned.
\<close>

fun image_loop :: "part list \<Rightarrow> error + string" where
  "image_loop [] = Inl (Error ''No image data returned'')"
| "image_loop (p # ps) =
     (case inlineData p of
        Some d \<Rightarrow> Inr (data_uri (mimeType d) (data d))
      | None \<Rightarrow> image_loop ps)"

definition generateImage_try :: "service \<Rightarrow> string \<Rightarrow> world \<Rightarrow> (error + string) \<times> world" where
  "generateImage_try svc prompt w =
     (let (ai, w1) = getAIClient w;
          (r, w2) = models_generateContent svc ai (generateImage_request prompt) w1
      in case r of
           Inl e \<Rightarrow> (Inl e, w2)
         | Inr resp \<Rightarrow> (image_loop (response_parts resp), w2))"

definition generateImage :: "service \<Rightarrow> string \<Rightarrow> world \<Rightarrow> (error + string) \<times> world" where
  "generateImage svc prompt w =
     (case generateImage_try svc prompt w of
        (Inr uri, w') \<Rightarrow> (Inr uri, w')
      | (Inl e, w') \<Rightarrow>
          (Inl e, w'\<lparr>console := console w' @ [LogError ''Gemini GenerateImage Error:'' e]\<rparr>))"

subsection \<open>streamText\<close>

text \<open>
  How a generator ends when it is drained: it returns, or it throws to its consumer.
  The model of the generator is the list of fragments a consumer that pulls until the
  end receives, together with that ending.
\<close>

datatype completion =
    Returned
  | Threw error

definition streamText_request :: "string \<Rightarrow> string option \<Rightarrow> string option \<Rightarrow> request" where
  "streamText_request prompt modelId sysInstruction =
     \<lparr>model = default_modelId modelId,
      contents = Prompt prompt,
      config = Some \<lparr>systemInstruction = sysInstruction,
                     thinkingConfig = None,
                     imageConfig = None\<rparr>\<rparr>"

text \<open>
  The \<open>for await\<close> loop: the fragments it yields, and the error that ends it when the
  stream fails.
\<close>

fun stream_loop :: "chunk_stream \<Rightarrow> string list \<times> error option" where
  "stream_loop StreamEnd = ([], None)"
| "stream_loop (StreamFail e) = ([], Some e)"
| "stream_loop (StreamChunk c rest) =
     (let (ys, r) = stream_loop rest
      in if truthy (chunk_text c) then (the (chunk_text c) # ys, r) else (ys, r))"

definition streamText_try ::
  "service \<Rightarrow> string \<Rightarrow> string option \<Rightarrow> string option \<Rightarrow> world
     \<Rightarrow> (string list \<times> error option) \<times> world" where
  "streamText_try svc prompt modelId sysInstruction w =
     (let (ai, w1) = getAIClient w;
          (r, w2) = models_generateContentStream svc ai
                      (streamText_request prompt modelId sysInstruction) w1
      in case r of
           Inl e \<Rightarrow> (([], Some e), w2)
         | Inr responseStream \<Rightarrow> (stream_loop responseStream, w2))"

definition streamText ::
  "service \<Rightarrow> string \<Rightarrow> string option \<Rightarrow> string option \<Rightarrow> world
     \<Rightarrow> (string list \<times> completion) \<times> world" where
  "streamText svc prompt modelId sysInstruction w =
     (case streamText_try svc prompt modelId sysInstruction w of
        ((ys, None), w') \<Rightarrow> ((ys, Returned), w')
      | ((ys, Some e), w') \<Rightarrow>
          ((ys @ ['' [Error generating stream]''], Returned),
           w'\<lparr>console := console w' @ [LogError ''Gemini StreamText Error:'' e]\<rparr>))"

subsection \<open>analyzeImage\<close>

definition analyzeImage_request :: "image_file \<Rightarrow> string option \<Rightarrow> string \<Rightarrow> request" where
  "analyzeImage_request imageFile base64Data prompt =
     \<lparr>model = ''gemini-2.5-flash-image'',
      contents = Parts [InlineDataPart (file_type imageFile) base64Data, TextPart prompt],
      config = None\<rparr>"

text \<open>
  The promise around the \<open>FileReader\<close>: \<open>onerror\<close> rejects with the event, \<open>onloadend\<close>
  resolves with \<^verbatim>\<open>result.split(',')[1]\<close>.
\<close>

definition read_base64 :: "image_file \<Rightarrow> error + string option" where
  "read_base64 imageFile =
     (case readAsDataURL imageFile of
        Inl ev \<Rightarrow> Inl ev
      | Inr result \<Rightarrow> Inr (index1 (split_comma result)))"

definition analyzeImage_try ::
  "service \<Rightarrow> image_file \<Rightarrow> string \<Rightarrow> world \<Rightarrow> (error + string) \<times> world" where
  "analyzeImage_try svc imageFile prompt w =
     (let (ai, w1) = getAIClient w
      in case read_base64 imageFile of
           Inl ev \<Rightarrow> (Inl ev, w1)
         | Inr base64Data \<Rightarrow>
             (let (r, w2) = models_generateContent svc ai
                              (analyzeImage_request imageFile base64Data prompt) w1
              in case r of
                   Inl e \<Rightarrow> (Inl e, w2)
                 | Inr resp \<Rightarrow>
                     (Inr (js_or (response_text resp) ''No analysis generated.''), w2)))"

text \<open>The \<open>catch\<close> logs the error and returns a fixed phrase instead of throwing.\<close>

definition analyzeImage ::
  "service \<Rightarrow> image_file \<Rightarrow> string \<Rightarrow> world \<Rightarrow> (error + string) \<times> world" where
  "analyzeImage svc imageFile prompt w =
     (case analyzeImage_try svc imageFile prompt w of
        (Inr t, w') \<Rightarrow> (Inr t, w')
      | (Inl e, w') \<Rightarrow>
          (Inr ''Failed to analyze image.'',
           w'\<lparr>console := console w' @ [LogError ''Gemini Vision Error:'' e]\<rparr>))"

subsection \<open>Observations on the inputs\<close>

text \<open>
  What a streamed response delivers before it ends: the chunks that arrive, and the
  failure that ends it, if any.
\<close>

fun arrived :: "chunk_stream \<Rightarrow> chunk list" where
  "arrived StreamEnd = []"
| "arrived (StreamFail e) = []"
| "arrived (StreamChunk c rest) = c # arrived rest"

fun stream_failure :: "chunk_stream \<Rightarrow> error option" where
  "stream_failure StreamEnd = None"
| "stream_failure (StreamFail e) = Some e"
| "stream_failure (StreamChunk c rest) = stream_failure rest"

text \<open>Base64 text: every character is of the base64 alphabet or the padding sign.\<close>

definition base64_alphabet :: string where
  "base64_alphabet =
     ''ABCDEFGHIJKLMNOPQRSTUVWXYZabcdefghijklmnopqrstuvwxyz0123456789+/=''"

definition is_base64 :: "string \<Rightarrow> bool" where
  "is_base64 d = (\<forall>c \<in> set d. c \<in> set base64_alphabet)"

subsection \<open>Simulated services\<close>

text \<open>
  A service that answers every request the same way, and a world with a given
  \<open>API_KEY\<close>, an empty console and no request issued yet.
\<close>

definition simulated_service :: "error + response \<Rightarrow> error + chunk_stream \<Rightarrow> service" where
  "simulated_service r s = \<lparr>generateContent = (\<lambda>_ _. r), generateContentStream = (\<lambda>_ _. s)\<rparr>"

definition fresh_world :: "string option \<Rightarrow> world" where
  "fresh_world key = \<lparr>API_KEY = key, console = [], sent = []\<rparr>"

section \<open>Properties\<close>

subsection \<open>Auxiliary facts\<close>

lemma js_or_Some: "t \<noteq> [] \<Longrightarrow> js_or (Some t) d = t"
  by (simp add: js_or_def)

lemma js_or_empty: "v = None \<or> v = Some [] \<Longrightarrow> js_or v d = d"
  by (auto simp: js_or_def)

lemma js_or_nonempty: "d \<noteq> [] \<Longrightarrow> js_or v d \<noteq> []"
  by (simp add: js_or_def split: option.splits)

lemma getAIClient_sent: "sent (snd (getAIClient w)) = sent w"
  by (simp add: getAIClient_def Let_def)

lemma generateText_result:
  "fst (generateText svc prompt modelId sysInstruction w) =
     (case generateContent svc (apiKey (fst (getAIClient w)))
             (generateText_request prompt modelId sysInstruction) of
        Inl e \<Rightarrow> Inl e
      | Inr resp \<Rightarrow> Inr (js_or (response_text resp) ''No response generated.''))"
  by (simp add: generateText_def generateText_try_def models_generateContent_def
        split_def Let_def split: sum.splits)

lemma generateText_sent:
  "sent (snd (generateText svc prompt modelId sysInstruction w)) =
     sent w @ [(apiKey (fst (getAIClient w)),
                generateText_request prompt modelId sysInstruction)]"
  by (simp add: generateText_def generateText_try_def models_generateContent_def
        split_def Let_def getAIClient_sent split: sum.splits)

lemma generateImage_result:
  "fst (generateImage svc prompt w) =
     (case generateContent svc (apiKey (fst (getAIClient w))) (generateImage_request prompt) of
        Inl e \<Rightarrow> Inl e
      | Inr resp \<Rightarrow> image_loop (response_parts resp))"
  by (simp add: generateImage_def generateImage_try_def models_generateContent_def
        split_def Let_def split: sum.splits)

lemma generateImage_sent:
  "sent (snd (generateImage svc prompt w)) =
     sent w @ [(apiKey (fst (getAIClient w)), generateImage_request prompt)]"
  by (simp add: generateImage_def generateImage_try_def models_generateContent_def
        split_def Let_def getAIClient_sent split: sum.splits)

lemma image_loop_none:
  "\<forall>p \<in> set ps. inlineData p = None \<Longrightarrow> image_loop ps = Inl (Error ''No image data returned'')"
  by (induction ps) simp_all

lemma image_loop_find:
  "find (\<lambda>p. inlineData p \<noteq> None) ps = Some p \<Longrightarrow> inlineData p = Some d
     \<Longrightarrow> image_loop ps = Inr (data_uri (mimeType d) (data d))"
  by (induction ps) (auto split: if_splits option.splits)

lemma stream_loop_eq:
  "stream_loop s =
     (map (the \<circ> chunk_text) (filter (\<lambda>c. truthy (chunk_text c)) (arrived s)),
      stream_failure s)"
  by (induction s) (simp_all add: split_def Let_def)

lemma streamText_result:
  "fst (streamText svc prompt modelId sysInstruction w) =
     (case generateContentStream svc (apiKey (fst (getAIClient w)))
             (streamText_request prompt modelId sysInstruction) of
        Inl e \<Rightarrow> (['' [Error generating stream]''], Returned)
      | Inr s \<Rightarrow>
          (case stream_failure s of
             None \<Rightarrow>
               (map (the \<circ> chunk_text) (filter (\<lambda>c. truthy (chunk_text c)) (arrived s)),
                Returned)
           | Some e \<Rightarrow>
               (map (the \<circ> chunk_text) (filter (\<lambda>c. truthy (chunk_text c)) (arrived s))
                  @ ['' [Error generating stream]''],
                Returned)))"
  by (simp add: streamText_def streamText_try_def models_generateContentStream_def
        stream_loop_eq split_def Let_def split: sum.splits option.splits)

lemma streamText_sent:
  "sent (snd (streamText svc prompt modelId sysInstruction w)) =
     sent w @ [(apiKey (fst (getAIClient w)),
                streamText_request prompt modelId sysInstruction)]"
  by (simp add: streamText_def streamText_try_def models_generateContentStream_def
        split_def Let_def getAIClient_sent split: sum.splits option.splits)

lemma analyzeImage_result:
  "fst (analyzeImage svc imageFile prompt w) =
     (case readAsDataURL imageFile of
        Inl ev \<Rightarrow> Inr ''Failed to analyze image.''
      | Inr result \<Rightarrow>
          (case generateContent svc (apiKey (fst (getAIClient w)))
                  (analyzeImage_request imageFile (index1 (split_comma result)) prompt) of
             Inl e \<Rightarrow> Inr ''Failed to analyze image.''
           | Inr resp \<Rightarrow> Inr (js_or (response_text resp) ''No analysis generated.'')))"
  by (simp add: analyzeImage_def analyzeImage_try_def read_base64_def
        models_generateContent_def split_def Let_def split: sum.splits)

lemma analyzeImage_sent:
  "readAsDataURL imageFile = Inr result \<Longrightarrow>
   sent (snd (analyzeImage svc imageFile prompt w)) =
     sent w @ [(apiKey (fst (getAIClient w)),
                analyzeImage_request imageFile (index1 (split_comma result)) prompt)]"
  by (simp add: analyzeImage_def analyzeImage_try_def read_base64_def
        models_generateContent_def split_def Let_def getAIClient_sent split: sum.splits)

lemma getAIClient_missing:
  "API_KEY w = None \<Longrightarrow>
   getAIClient w =
     (\<lparr>apiKey = ''DUMMY_KEY_FOR_DEMO''\<rparr>,
      w\<lparr>console := console w @
          [Warn ''Gemini API Key is missing. Check process.env.API_KEY'']\<rparr>)"
  by (simp add: getAIClient_def truthy_def js_or_def)

lemma generateText_console:
  "set (console (snd (getAIClient w)))
     \<subseteq> set (console (snd (generateText svc prompt modelId sysInstruction w)))"
  by (auto simp: generateText_def generateText_try_def models_generateContent_def
        split_def Let_def split: sum.splits)

lemma generateImage_console:
  "set (console (snd (getAIClient w))) \<subseteq> set (console (snd (generateImage svc prompt w)))"
  by (auto simp: generateImage_def generateImage_try_def models_generateContent_def
        split_def Let_def split: sum.splits)

lemma streamText_console:
  "set (console (snd (getAIClient w)))
     \<subseteq> set (console (snd (streamText svc prompt modelId sysInstruction w)))"
  by (auto simp: streamText_def streamText_try_def models_generateContentStream_def
        split_def Let_def split: sum.splits option.splits)

lemma analyzeImage_console:
  "set (console (snd (getAIClient w)))
     \<subseteq> set (console (snd (analyzeImage svc imageFile prompt w)))"
  by (auto simp: analyzeImage_def analyzeImage_try_def models_generateContent_def
        split_def Let_def split: sum.splits)

lemma split_comma_nonempty: "split_comma s \<noteq> []"
  by (induction s) (auto split: list.splits)

lemma split_comma_no_comma: "CHR '','' \<notin> set s \<Longrightarrow> split_comma s = [s]"
  by (induction s) auto

lemma split_comma_prefix:
  "CHR '','' \<notin> set p \<Longrightarrow> split_comma (p @ CHR '','' # s) = p # split_comma s"
  by (induction p) auto

lemma base64_no_comma: "CHR '','' \<notin> set base64_alphabet"
  by (simp add: base64_alphabet_def)

lemma is_base64_no_comma: "is_base64 d \<Longrightarrow> CHR '','' \<notin> set d"
  using base64_no_comma unfolding is_base64_def by blast

lemma split_comma_data_uri:
  assumes "CHR '','' \<notin> set m" and "CHR '','' \<notin> set d"
  shows "split_comma (data_uri m d) = [''data:'' @ m @ '';base64'', d]"
proof -
  have u: "data_uri m d = (''data:'' @ m @ '';base64'') @ CHR '','' # d"
    by (simp add: data_uri_def)
  have "CHR '','' \<notin> set (''data:'' @ m @ '';base64'')"
    using assms(1) by simp
  then have "split_comma ((''data:'' @ m @ '';base64'') @ CHR '','' # d)
               = (''data:'' @ m @ '';base64'') # split_comma d"
    by (rule split_comma_prefix)
  then show ?thesis
    unfolding u split_comma_no_comma [OF assms(2)] .
qed

subsection \<open>Text completion\<close>

text \<open>
  Claim C2. When the service answers the request of \<open>generateText\<close>, the call resolves
  with the service's text if that text is non-empty, and with the literal
  \<open>No response generated.\<close> if the text is absent or empty; either way the string
  returned is non-empty. This holds for every prompt, the non-empty ones among them.
\<close>

theorem generateText_success:
  assumes "generateContent svc (apiKey (fst (getAIClient w)))
             (generateText_request prompt modelId sysInstruction) = Inr resp"
  shows "(\<forall>t. response_text resp = Some t \<and> t \<noteq> [] \<longrightarrow>
            fst (generateText svc prompt modelId sysInstruction w) = Inr t)
       \<and> (response_text resp = None \<or> response_text resp = Some [] \<longrightarrow>
            fst (generateText svc prompt modelId sysInstruction w)
              = Inr ''No response generated.'')
       \<and> (\<exists>t. fst (generateText svc prompt modelId sysInstruction w) = Inr t \<and> t \<noteq> [])"
proof -
  have r: "fst (generateText svc prompt modelId sysInstruction w)
             = Inr (js_or (response_text resp) ''No response generated.'')"
    using assms by (simp add: generateText_result)
  show ?thesis
    unfolding r using js_or_nonempty [of "''No response generated.''" "response_text resp"]
    by (auto simp: js_or_Some js_or_empty)
qed

theorem generateText_success_witness:
  "generateContent
     (simulated_service (Inr \<lparr>response_text = Some ''Hello'', candidates = None\<rparr>)
        (Inr StreamEnd))
     (apiKey (fst (getAIClient (fresh_world (Some ''k'')))))
     (generateText_request ''Hi'' None None)
     = Inr \<lparr>response_text = Some ''Hello'', candidates = None\<rparr>
   \<and> fst (generateText
        (simulated_service (Inr \<lparr>response_text = Some ''Hello'', candidates = None\<rparr>)
           (Inr StreamEnd))
        ''Hi'' None None (fresh_world (Some ''k''))) = Inr ''Hello''"
proof -
  have h: "generateContent
     (simulated_service (Inr \<lparr>response_text = Some ''Hello'', candidates = None\<rparr>)
        (Inr StreamEnd))
     (apiKey (fst (getAIClient (fresh_world (Some ''k'')))))
     (generateText_request ''Hi'' None None)
     = Inr \<lparr>response_text = Some ''Hello'', candidates = None\<rparr>"
    by (simp add: simulated_service_def)
  from generateText_success [OF h] h show ?thesis by simp
qed

text \<open>
  Claim C3. When the transport or the service fails on the request of \<open>generateText\<close>,
  the call rejects with that very error, and exactly one request has been issued: the
  one attempt, with no retry.
\<close>

theorem generateText_failure:
  assumes "generateContent svc (apiKey (fst (getAIClient w)))
             (generateText_request prompt modelId sysInstruction) = Inl e"
  shows "fst (generateText svc prompt modelId sysInstruction w) = Inl e
       \<and> sent (snd (generateText svc prompt modelId sysInstruction w))
           = sent w @ [(apiKey (fst (getAIClient w)),
                        generateText_request prompt modelId sysInstruction)]"
  using assms by (simp add: generateText_result generateText_sent)

theorem generateText_failure_witness:
  "generateContent
     (simulated_service (Inl (Error ''503 Service Unavailable'')) (Inr StreamEnd))
     (apiKey (fst (getAIClient (fresh_world (Some ''k'')))))
     (generateText_request ''Hi'' None None)
     = Inl (Error ''503 Service Unavailable'')
   \<and> fst (generateText
        (simulated_service (Inl (Error ''503 Service Unavailable'')) (Inr StreamEnd))
        ''Hi'' None None (fresh_world (Some ''k''))) = Inl (Error ''503 Service Unavailable'')
   \<and> length (sent (snd (generateText
        (simulated_service (Inl (Error ''503 Service Unavailable'')) (Inr StreamEnd))
        ''Hi'' None None (fresh_world (Some ''k''))))) = 1"
proof -
  have h: "generateContent
     (simulated_service (Inl (Error ''503 Service Unavailable'')) (Inr StreamEnd))
     (apiKey (fst (getAIClient (fresh_world (Some ''k'')))))
     (generateText_request ''Hi'' None None)
     = Inl (Error ''503 Service Unavailable'')"
    by (simp add: simulated_service_def)
  from generateText_failure [OF h] h show ?thesis by (simp add: fresh_world_def)
qed

subsection \<open>Image generation\<close>

text \<open>
  Claim C4. When the service answers the request of \<open>generateImage\<close> and none of the
  content parts that the call inspects (those of the first candidate, or none when a
  level of the response is missing) carries inline data, the call rejects with an error
  whose message is \<open>No image data returned\<close>.
\<close>

theorem generateImage_no_image_data:
  assumes "generateContent svc (apiKey (fst (getAIClient w))) (generateImage_request prompt)
             = Inr resp"
      and "\<forall>p \<in> set (response_parts resp). inlineData p = None"
  shows "fst (generateImage svc prompt w) = Inl (Error ''No image data returned'')
       \<and> (\<exists>e. fst (generateImage svc prompt w) = Inl e \<and> message e = ''No image data returned'')"
  using assms by (simp add: generateImage_result image_loop_none)

theorem generateImage_no_image_data_witness:
  "generateContent
     (simulated_service
        (Inr \<lparr>response_text = Some ''sorry'',
              candidates = Some [\<lparr>content = Some \<lparr>parts = Some
                [\<lparr>inlineData = None, part_text = Some ''sorry''\<rparr>]\<rparr>\<rparr>]\<rparr>)
        (Inr StreamEnd))
     (apiKey (fst (getAIClient (fresh_world None)))) (generateImage_request ''a cat'')
     = Inr \<lparr>response_text = Some ''sorry'',
             candidates = Some [\<lparr>content = Some \<lparr>parts = Some
                [\<lparr>inlineData = None, part_text = Some ''sorry''\<rparr>]\<rparr>\<rparr>]\<rparr>
   \<and> fst (generateImage
        (simulated_service
           (Inr \<lparr>response_text = Some ''sorry'',
                 candidates = Some [\<lparr>content = Some \<lparr>parts = Some
                   [\<lparr>inlineData = None, part_text = Some ''sorry''\<rparr>]\<rparr>\<rparr>]\<rparr>)
           (Inr StreamEnd))
        ''a cat'' (fresh_world None)) = Inl (Error ''No image data returned'')"
proof -
  let ?resp = "\<lparr>response_text = Some ''sorry'',
             candidates = Some [\<lparr>content = Some \<lparr>parts = Some
                [\<lparr>inlineData = None, part_text = Some ''sorry''\<rparr>]\<rparr>\<rparr>]\<rparr>"
  let ?svc = "simulated_service (Inr ?resp) (Inr StreamEnd)"
  have h1: "generateContent ?svc
     (apiKey (fst (getAIClient (fresh_world None)))) (generateImage_request ''a cat'')
     = Inr ?resp"
    by (simp add: simulated_service_def)
  have h2: "\<forall>p \<in> set (response_parts ?resp). inlineData p = None"
    by (simp add: response_parts_def)
  from generateImage_no_image_data [OF h1 h2] h1 show ?thesis by simp
qed

text \<open>
  Claim C6. When the service answers the request of \<open>generateImage\<close> and some content
  part carries inline data, the call resolves with the first such part, written as
  \<open>data:\<close>, its MIME type, \<open>;base64,\<close> and its data.
\<close>

theorem generateImage_first_image:
  assumes "generateContent svc (apiKey (fst (getAIClient w))) (generateImage_request prompt)
             = Inr resp"
      and "\<exists>p \<in> set (response_parts resp). inlineData p \<noteq> None"
  shows "\<exists>p d. find (\<lambda>p. inlineData p \<noteq> None) (response_parts resp) = Some p
             \<and> inlineData p = Some d
             \<and> fst (generateImage svc prompt w)
                 = Inr (''data:'' @ mimeType d @ '';base64,'' @ data d)"
proof -
  from assms(2) obtain p where p: "find (\<lambda>p. inlineData p \<noteq> None) (response_parts resp) = Some p"
    by (cases "find (\<lambda>p. inlineData p \<noteq> None) (response_parts resp)")
       (auto simp: find_None_iff)
  then have "inlineData p \<noteq> None"
    by (auto simp: find_Some_iff)
  then obtain d where d: "inlineData p = Some d" by auto
  have "fst (generateImage svc prompt w) = Inr (data_uri (mimeType d) (data d))"
    using assms(1) image_loop_find [OF p d] by (simp add: generateImage_result)
  with p d show ?thesis by (auto simp: data_uri_def)
qed

theorem generateImage_first_image_witness:
  "fst (generateImage
        (simulated_service
           (Inr \<lparr>response_text = None,
                 candidates = Some [\<lparr>content = Some \<lparr>parts = Some
                   [\<lparr>inlineData = None, part_text = Some ''Here it is''\<rparr>,
                    \<lparr>inlineData = Some \<lparr>mimeType = ''image/png'', data = ''iVBORw0KGgo=''\<rparr>,
                     part_text = None\<rparr>,
                    \<lparr>inlineData = Some \<lparr>mimeType = ''image/jpeg'', data = ''/9j/4AAQ''\<rparr>,
                     part_text = None\<rparr>]\<rparr>\<rparr>]\<rparr>)
           (Inr StreamEnd))
        ''a cat'' (fresh_world None)) = Inr ''data:image/png;base64,iVBORw0KGgo=''"
proof -
  let ?resp = "\<lparr>response_text = None,
                 candidates = Some [\<lparr>content = Some \<lparr>parts = Some
                   [\<lparr>inlineData = None, part_text = Some ''Here it is''\<rparr>,
                    \<lparr>inlineData = Some \<lparr>mimeType = ''image/png'', data = ''iVBORw0KGgo=''\<rparr>,
                     part_text = None\<rparr>,
                    \<lparr>inlineData = Some \<lparr>mimeType = ''image/jpeg'', data = ''/9j/4AAQ''\<rparr>,
                     part_text = None\<rparr>]\<rparr>\<rparr>]\<rparr>"
  let ?svc = "simulated_service (Inr ?resp) (Inr StreamEnd)"
  have h1: "generateContent ?svc
     (apiKey (fst (getAIClient (fresh_world None)))) (generateImage_request ''a cat'')
     = Inr ?resp"
    by (simp add: simulated_service_def)
  have h2: "\<exists>p \<in> set (response_parts ?resp). inlineData p \<noteq> None"
    by (simp add: response_parts_def)
  from generateImage_first_image [OF h1 h2] show ?thesis
    by (simp add: response_parts_def)
qed

subsection \<open>Streaming completion\<close>

text \<open>
  Claim C1. When the streaming call fails, the sequence produced by \<open>streamText\<close>
  carries exactly one sentinel fragment, the literal \<open> [Error generating stream]\<close>, as
  its last element, and then returns: it never throws to its consumer. If the service
  rejects the request, the sentinel is the whole sequence. If the stream fails after some
  chunks arrived, the fragments already yielded for them come first and the sentinel
  follows.
\<close>

theorem streamText_failure:
  "(\<forall>e. generateContentStream svc (apiKey (fst (getAIClient w)))
             (streamText_request prompt modelId sysInstruction) = Inl e \<longrightarrow>
          fst (streamText svc prompt modelId sysInstruction w)
            = (['' [Error generating stream]''], Returned))
   \<and> (\<forall>s e. generateContentStream svc (apiKey (fst (getAIClient w)))
             (streamText_request prompt modelId sysInstruction) = Inr s
           \<and> stream_failure s = Some e \<longrightarrow>
          fst (streamText svc prompt modelId sysInstruction w)
            = (map (the \<circ> chunk_text) (filter (\<lambda>c. truthy (chunk_text c)) (arrived s))
                 @ ['' [Error generating stream]''],
               Returned))"
  by (simp add: streamText_result)

theorem streamText_failure_witness:
  "fst (streamText (simulated_service (Inr \<lparr>response_text = None, candidates = None\<rparr>)
                     (Inl (Error ''fetch failed'')))
          ''Hi'' None None (fresh_world (Some ''k'')))
     = (['' [Error generating stream]''], Returned)
   \<and> fst (streamText (simulated_service (Inr \<lparr>response_text = None, candidates = None\<rparr>)
                     (Inr (StreamChunk \<lparr>chunk_text = Some ''Hel''\<rparr>
                            (StreamChunk \<lparr>chunk_text = Some ''lo''\<rparr>
                              (StreamFail (Error ''connection reset''))))))
          ''Hi'' None None (fresh_world (Some ''k'')))
     = ([''Hel'', ''lo'', '' [Error generating stream]''], Returned)"
proof -
  let ?r = "Inr \<lparr>response_text = None, candidates = None\<rparr>"
  let ?s = "StreamChunk \<lparr>chunk_text = Some ''Hel''\<rparr>
              (StreamChunk \<lparr>chunk_text = Some ''lo''\<rparr>
                (StreamFail (Error ''connection reset'')))"
  have a: "generateContentStream (simulated_service ?r (Inl (Error ''fetch failed'')))
             (apiKey (fst (getAIClient (fresh_world (Some ''k'')))))
             (streamText_request ''Hi'' None None) = Inl (Error ''fetch failed'')"
    by (simp add: simulated_service_def)
  have b: "generateContentStream (simulated_service ?r (Inr ?s))
             (apiKey (fst (getAIClient (fresh_world (Some ''k'')))))
             (streamText_request ''Hi'' None None) = Inr ?s
           \<and> stream_failure ?s = Some (Error ''connection reset'')"
    by (simp add: simulated_service_def)
  from streamText_failure
         [of "simulated_service ?r (Inl (Error ''fetch failed''))" "fresh_world (Some ''k'')"
             "''Hi''" None None] a
  have 1: "fst (streamText (simulated_service ?r (Inl (Error ''fetch failed'')))
             ''Hi'' None None (fresh_world (Some ''k'')))
           = (['' [Error generating stream]''], Returned)"
    by blast
  from streamText_failure
         [of "simulated_service ?r (Inr ?s)" "fresh_world (Some ''k'')" "''Hi''" None None] b
  have 2: "fst (streamText (simulated_service ?r (Inr ?s))
             ''Hi'' None None (fresh_world (Some ''k'')))
           = (map (the \<circ> chunk_text) (filter (\<lambda>c. truthy (chunk_text c)) (arrived ?s))
                 @ ['' [Error generating stream]''], Returned)"
    by blast
  from 1 2 show ?thesis by (simp add: truthy_def)
qed

text \<open>
  Claim C9. On the success path (the stream ends without a failure) the sequence
  consists of the texts of the chunks whose text is present and non-empty, in arrival
  order; chunks with an empty or absent text yield nothing, so every fragment is a
  non-empty string.
\<close>

theorem streamText_fragments_nonempty:
  assumes "generateContentStream svc (apiKey (fst (getAIClient w)))
             (streamText_request prompt modelId sysInstruction) = Inr s"
      and "stream_failure s = None"
  shows "fst (streamText svc prompt modelId sysInstruction w)
           = (map (the \<circ> chunk_text) (filter (\<lambda>c. truthy (chunk_text c)) (arrived s)),
              Returned)
       \<and> (\<forall>y \<in> set (fst (fst (streamText svc prompt modelId sysInstruction w))). y \<noteq> [])"
  using assms by (auto simp: streamText_result truthy_def split: option.splits)

theorem streamText_fragments_nonempty_witness:
  "fst (streamText (simulated_service (Inr \<lparr>response_text = None, candidates = None\<rparr>)
                     (Inr (StreamChunk \<lparr>chunk_text = Some ''Hel''\<rparr>
                            (StreamChunk \<lparr>chunk_text = Some ''''\<rparr>
                              (StreamChunk \<lparr>chunk_text = None\<rparr>
                                (StreamChunk \<lparr>chunk_text = Some ''lo''\<rparr> StreamEnd))))))
          ''Hi'' None None (fresh_world (Some ''k'')))
     = ([''Hel'', ''lo''], Returned)"
proof -
  let ?r = "Inr \<lparr>response_text = None, candidates = None\<rparr>"
  let ?s = "StreamChunk \<lparr>chunk_text = Some ''Hel''\<rparr>
              (StreamChunk \<lparr>chunk_text = Some ''''\<rparr>
                (StreamChunk \<lparr>chunk_text = None\<rparr>
                  (StreamChunk \<lparr>chunk_text = Some ''lo''\<rparr> StreamEnd)))"
  have h1: "generateContentStream (simulated_service ?r (Inr ?s))
             (apiKey (fst (getAIClient (fresh_world (Some ''k'')))))
             (streamText_request ''Hi'' None None) = Inr ?s"
    by (simp add: simulated_service_def)
  have h2: "stream_failure ?s = None"
    by simp
  from streamText_fragments_nonempty [OF h1 h2] show ?thesis
    by (simp add: truthy_def)
qed

subsection \<open>Vision\<close>

text \<open>
  Claim C5. When the service or the transport fails on the request of \<open>analyzeImage\<close>,
  the call resolves, not rejects, with the literal \<open>Failed to analyze image.\<close>.
\<close>

theorem analyzeImage_failure:
  assumes "readAsDataURL imageFile = Inr result"
      and "generateContent svc (apiKey (fst (getAIClient w)))
             (analyzeImage_request imageFile (index1 (split_comma result)) prompt) = Inl e"
  shows "fst (analyzeImage svc imageFile prompt w) = Inr ''Failed to analyze image.''"
  using assms by (simp add: analyzeImage_result)

theorem analyzeImage_failure_witness:
  "fst (analyzeImage
          (simulated_service (Inl (Error ''503 Service Unavailable'')) (Inr StreamEnd))
          \<lparr>file_type = ''image/png'',
           readAsDataURL = Inr ''data:image/png;base64,iVBORw0KGgo=''\<rparr>
          ''Describe this image'' (fresh_world (Some ''k'')))
     = Inr ''Failed to analyze image.''"
proof -
  let ?f = "\<lparr>file_type = ''image/png'',
             readAsDataURL = Inr ''data:image/png;base64,iVBORw0KGgo=''\<rparr>"
  let ?svc = "simulated_service (Inl (Error ''503 Service Unavailable'')) (Inr StreamEnd)"
  have h1: "readAsDataURL ?f = Inr ''data:image/png;base64,iVBORw0KGgo=''"
    by simp
  have h2: "generateContent ?svc (apiKey (fst (getAIClient (fresh_world (Some ''k'')))))
              (analyzeImage_request ?f
                 (index1 (split_comma ''data:image/png;base64,iVBORw0KGgo=''))
                 ''Describe this image'')
            = Inl (Error ''503 Service Unavailable'')"
    by (simp add: simulated_service_def)
  from analyzeImage_failure [OF h1 h2] show ?thesis .
qed

text \<open>
  Claim C10. When the service answers the request of \<open>analyzeImage\<close> with an absent or
  empty text, the call resolves with the literal \<open>No analysis generated.\<close>, which is not
  the phrase returned on failure.
\<close>

theorem analyzeImage_empty_text:
  assumes "readAsDataURL imageFile = Inr result"
      and "generateContent svc (apiKey (fst (getAIClient w)))
             (analyzeImage_request imageFile (index1 (split_comma result)) prompt) = Inr resp"
      and "response_text resp = None \<or> response_text resp = Some []"
  shows "fst (analyzeImage svc imageFile prompt w) = Inr ''No analysis generated.''
       \<and> fst (analyzeImage svc imageFile prompt w) \<noteq> Inr ''Failed to analyze image.''"
  using assms by (simp add: analyzeImage_result js_or_empty)

theorem analyzeImage_empty_text_witness:
  "fst (analyzeImage
          (simulated_service (Inr \<lparr>response_text = Some '''', candidates = None\<rparr>)
             (Inr StreamEnd))
          \<lparr>file_type = ''image/png'',
           readAsDataURL = Inr ''data:image/png;base64,iVBORw0KGgo=''\<rparr>
          ''Describe this image'' (fresh_world (Some ''k'')))
     = Inr ''No analysis generated.''"
proof -
  let ?f = "\<lparr>file_type = ''image/png'',
             readAsDataURL = Inr ''data:image/png;base64,iVBORw0KGgo=''\<rparr>"
  let ?resp = "\<lparr>response_text = Some '''', candidates = None\<rparr>"
  let ?svc = "simulated_service (Inr ?resp) (Inr StreamEnd)"
  have h1: "readAsDataURL ?f = Inr ''data:image/png;base64,iVBORw0KGgo=''"
    by simp
  have h2: "generateContent ?svc (apiKey (fst (getAIClient (fresh_world (Some ''k'')))))
              (analyzeImage_request ?f
                 (index1 (split_comma ''data:image/png;base64,iVBORw0KGgo=''))
                 ''Describe this image'')
            = Inr ?resp"
    by (simp add: simulated_service_def)
  have h3: "response_text ?resp = None \<or> response_text ?resp = Some []"
    by simp
  from analyzeImage_empty_text [OF h1 h2 h3] show ?thesis by simp
qed

subsection \<open>Credential\<close>

text \<open>
  Claim C7. When \<open>API_KEY\<close> is absent from the environment, \<open>getAIClient\<close> builds the
  client with the placeholder \<open>DUMMY_KEY_FOR_DEMO\<close> and writes a warning to the
  console, and each of the four calls still issues its request, under the placeholder:
  \<open>generateText\<close>, \<open>generateImage\<close> and \<open>streamText\<close> always, \<open>analyzeImage\<close> once the
  file has been read. The warning is on the console after each call.
\<close>

theorem missing_credential_not_fatal:
  assumes "API_KEY w = None"
  shows "getAIClient w =
           (\<lparr>apiKey = ''DUMMY_KEY_FOR_DEMO''\<rparr>,
            w\<lparr>console := console w @
                [Warn ''Gemini API Key is missing. Check process.env.API_KEY'']\<rparr>)
       \<and> sent (snd (generateText svc prompt modelId sysInstruction w))
           = sent w @ [(''DUMMY_KEY_FOR_DEMO'', generateText_request prompt modelId sysInstruction)]
       \<and> sent (snd (generateImage svc prompt w))
           = sent w @ [(''DUMMY_KEY_FOR_DEMO'', generateImage_request prompt)]
       \<and> sent (snd (streamText svc prompt modelId sysInstruction w))
           = sent w @ [(''DUMMY_KEY_FOR_DEMO'', streamText_request prompt modelId sysInstruction)]
       \<and> (\<forall>result. readAsDataURL imageFile = Inr result \<longrightarrow>
            sent (snd (analyzeImage svc imageFile prompt w))
              = sent w @ [(''DUMMY_KEY_FOR_DEMO'',
                           analyzeImage_request imageFile (index1 (split_comma result)) prompt)])
       \<and> Warn ''Gemini API Key is missing. Check process.env.API_KEY''
            \<in> set (console (snd (generateText svc prompt modelId sysInstruction w)))
              \<inter> set (console (snd (generateImage svc prompt w)))
              \<inter> set (console (snd (streamText svc prompt modelId sysInstruction w)))
              \<inter> set (console (snd (analyzeImage svc imageFile prompt w)))"
proof -
  note c = getAIClient_missing [OF assms]
  have k: "apiKey (fst (getAIClient w)) = ''DUMMY_KEY_FOR_DEMO''"
    by (simp add: c)
  have m: "Warn ''Gemini API Key is missing. Check process.env.API_KEY''
             \<in> set (console (snd (getAIClient w)))"
    by (simp add: c)
  have 1: "sent (snd (generateText svc prompt modelId sysInstruction w))
           = sent w @ [(''DUMMY_KEY_FOR_DEMO'', generateText_request prompt modelId sysInstruction)]"
    by (simp add: generateText_sent k)
  have 2: "sent (snd (generateImage svc prompt w))
           = sent w @ [(''DUMMY_KEY_FOR_DEMO'', generateImage_request prompt)]"
    by (simp add: generateImage_sent k)
  have 3: "sent (snd (streamText svc prompt modelId sysInstruction w))
           = sent w @ [(''DUMMY_KEY_FOR_DEMO'', streamText_request prompt modelId sysInstruction)]"
    by (simp add: streamText_sent k)
  have 4: "\<forall>result. readAsDataURL imageFile = Inr result \<longrightarrow>
            sent (snd (analyzeImage svc imageFile prompt w))
              = sent w @ [(''DUMMY_KEY_FOR_DEMO'',
                           analyzeImage_request imageFile (index1 (split_comma result)) prompt)]"
    by (simp add: analyzeImage_sent k)
  have 5: "Warn ''Gemini API Key is missing. Check process.env.API_KEY''
            \<in> set (console (snd (generateText svc prompt modelId sysInstruction w)))
              \<inter> set (console (snd (generateImage svc prompt w)))
              \<inter> set (console (snd (streamText svc prompt modelId sysInstruction w)))
              \<inter> set (console (snd (analyzeImage svc imageFile prompt w)))"
    using m generateText_console [of w svc prompt modelId sysInstruction]
      generateImage_console [of w svc prompt]
      streamText_console [of w svc prompt modelId sysInstruction]
      analyzeImage_console [of w svc imageFile prompt]
    by blast
  from c 1 2 3 4 5 show ?thesis by blast
qed

theorem missing_credential_not_fatal_witness:
  "API_KEY (fresh_world None) = None
   \<and> sent (snd (generateText
        (simulated_service (Inr \<lparr>response_text = Some ''Hello'', candidates = None\<rparr>)
           (Inr StreamEnd))
        ''Hi'' None None (fresh_world None)))
     = [(''DUMMY_KEY_FOR_DEMO'', generateText_request ''Hi'' None None)]
   \<and> Warn ''Gemini API Key is missing. Check process.env.API_KEY''
       \<in> set (console (snd (generateText
        (simulated_service (Inr \<lparr>response_text = Some ''Hello'', candidates = None\<rparr>)
           (Inr StreamEnd))
        ''Hi'' None None (fresh_world None))))"
proof -
  have h: "API_KEY (fresh_world None) = None"
    by (simp add: fresh_world_def)
  have e: "sent (fresh_world None) = []"
    by (simp add: fresh_world_def)
  let ?svc = "simulated_service (Inr \<lparr>response_text = Some ''Hello'', candidates = None\<rparr>)
           (Inr StreamEnd)"
  from missing_credential_not_fatal [OF h, of ?svc "''Hi''" None None
      "\<lparr>file_type = ''image/png'', readAsDataURL = Inl (ProgressEvent ''error'')\<rparr>"]
  have "sent (snd (generateText ?svc ''Hi'' None None (fresh_world None)))
          = sent (fresh_world None)
              @ [(''DUMMY_KEY_FOR_DEMO'', generateText_request ''Hi'' None None)]
        \<and> Warn ''Gemini API Key is missing. Check process.env.API_KEY''
            \<in> set (console (snd (generateText ?svc ''Hi'' None None (fresh_world None))))"
    by blast
  with h e show ?thesis by simp
qed

subsection \<open>Data URI round trip\<close>

text \<open>
  The vision call strips the prefix of a data URL with \<^verbatim>\<open>result.split(',')[1]\<close>; its
  comment reads \<^verbatim>\<open>Remove data URL prefix\<close>, with \<open>data:image/png;base64,\<close> as its
  example. Where
  neither the MIME type nor the payload holds a comma, the second piece of the split is
  the payload, and the prefix is removed as the comment says.
\<close>

lemma read_base64_comma_free:
  assumes "CHR '','' \<notin> set m" and "is_base64 d"
      and "readAsDataURL imageFile = Inr (data_uri m d)"
  shows "read_base64 imageFile = Inr (Some d)"
proof -
  have s: "split_comma (data_uri m d) = [''data:'' @ m @ '';base64'', d]"
    using assms(1) is_base64_no_comma [OF assms(2)] by (rule split_comma_data_uri)
  have i: "index1 (split_comma (data_uri m d)) = Some d"
    unfolding s by (simp add: index1_def)
  show ?thesis
    unfolding read_base64_def assms(3) using i by simp
qed

text \<open>
  Claim C8. Encoding an image as \<open>data:\<close>, its MIME type, \<open>;base64,\<close> and its base64
  content, and decoding that data URI as the vision call does, should give back the
  base64 content and the MIME type, for every image and every MIME type. The code does
  not: a MIME type may carry a parameter whose quoted value holds a comma, and the split
  then cuts inside the prefix. For a file of type \<open>image/png\<close> with a parameter \<open>note\<close>
  whose quoted value is \<open>a,b\<close> and with base64 content \<open>iVBORw0KGgo=\<close>, the decoded
  content is the piece of the prefix from \<open>b\<close> to \<open>;base64\<close>, and that piece is what the
  request to the service carries as the image data.
\<close>

theorem analyzeImage_prefix_not_removed:
  "read_base64
       \<lparr>file_type = ''image/png;note='' @ [CHR 0x22] @ ''a,b'' @ [CHR 0x22],
        readAsDataURL =
          Inr (data_uri (''image/png;note='' @ [CHR 0x22] @ ''a,b'' @ [CHR 0x22])
                 ''iVBORw0KGgo='')\<rparr>
     = Inr (Some (''b'' @ [CHR 0x22] @ '';base64''))
   \<and> read_base64
       \<lparr>file_type = ''image/png;note='' @ [CHR 0x22] @ ''a,b'' @ [CHR 0x22],
        readAsDataURL =
          Inr (data_uri (''image/png;note='' @ [CHR 0x22] @ ''a,b'' @ [CHR 0x22])
                 ''iVBORw0KGgo='')\<rparr>
     \<noteq> Inr (Some ''iVBORw0KGgo='')
   \<and> map (contents \<circ> snd) (sent (snd (analyzeImage
         (simulated_service (Inr \<lparr>response_text = Some ''A pixel'', candidates = None\<rparr>)
            (Inr StreamEnd))
         \<lparr>file_type = ''image/png;note='' @ [CHR 0x22] @ ''a,b'' @ [CHR 0x22],
          readAsDataURL =
            Inr (data_uri (''image/png;note='' @ [CHR 0x22] @ ''a,b'' @ [CHR 0x22])
                   ''iVBORw0KGgo='')\<rparr>
         ''Describe this image'' (fresh_world (Some ''k'')))))
     = [Parts [InlineDataPart (''image/png;note='' @ [CHR 0x22] @ ''a,b'' @ [CHR 0x22])
                 (Some (''b'' @ [CHR 0x22] @ '';base64'')),
               TextPart ''Describe this image'']]"
proof -
  let ?f = "\<lparr>file_type = ''image/png;note='' @ [CHR 0x22] @ ''a,b'' @ [CHR 0x22],
             readAsDataURL =
               Inr (data_uri (''image/png;note='' @ [CHR 0x22] @ ''a,b'' @ [CHR 0x22])
                      ''iVBORw0KGgo='')\<rparr>"
  have i: "index1 (split_comma
             (data_uri (''image/png;note='' @ [CHR 0x22] @ ''a,b'' @ [CHR 0x22])
                ''iVBORw0KGgo=''))
           = Some (''b'' @ [CHR 0x22] @ '';base64'')"
    by (simp add: data_uri_def index1_def)
  have r: "read_base64 ?f = Inr (Some (''b'' @ [CHR 0x22] @ '';base64''))"
    unfolding read_base64_def using i by simp
  have h: "readAsDataURL ?f
           = Inr (data_uri (''image/png;note='' @ [CHR 0x22] @ ''a,b'' @ [CHR 0x22])
                    ''iVBORw0KGgo='')"
    by simp
  have q: "map (contents \<circ> snd) (sent (snd (analyzeImage
         (simulated_service (Inr \<lparr>response_text = Some ''A pixel'', candidates = None\<rparr>)
            (Inr StreamEnd))
         ?f ''Describe this image'' (fresh_world (Some ''k'')))))
     = [Parts [InlineDataPart (''image/png;note='' @ [CHR 0x22] @ ''a,b'' @ [CHR 0x22])
                 (Some (''b'' @ [CHR 0x22] @ '';base64'')),
               TextPart ''Describe this image'']]"
    unfolding analyzeImage_sent [OF h] i
    by (simp add: analyzeImage_request_def fresh_world_def)
  from r q show ?thesis by simp
qed

end
